theory Spec2Isabelle
  imports Complex_Main
begin

section \<open>JavaScript values shared by both scripts\<close>

text \<open>
  A thrown value is an object with a \<open>name\<close> and a \<open>message\<close>. The message may be
  missing (\<open>undefined\<close>), which is why the scripts read it as \<open>error.message?.includes(..)\<close>
  and \<open>lastError?.message || 'Unknown error'\<close>.
\<close>

record jserror =
  ename :: string
  emessage :: "string option"

text \<open>\<open>new Error(msg)\<close>.\<close>

definition mkError :: "string \<Rightarrow> jserror" where
  "mkError msg = \<lparr>ename = ''Error'', emessage = Some msg\<rparr>"

text \<open>
  The \<open>TypeError\<close> the engine raises when a property is read from, or a method is called on,
  \<open>null\<close> or \<open>undefined\<close>. The argument names the receiver expression.
\<close>

definition nullDeref :: "string \<Rightarrow> jserror" where
  "nullDeref what = \<lparr>ename = ''TypeError'', emessage = Some (''Cannot read properties of null: '' @ what)\<rparr>"

text \<open>A media track: its identity, its kind and whether \<open>stop()\<close> has ended it.\<close>

datatype track_kind = AudioKind | VideoKind

record track =
  tid :: nat
  kind :: track_kind
  ended :: bool

type_synonym mediastream = "track list"

section \<open>public/meetingsRenderer.js: class Session\<close>

text \<open>
  The session object holds three nullable handles and a flag. The peer connection handle
  carries the ids of the tracks attached with \<open>addTrack\<close> (its senders). Effects on the host
  objects behind the handles are recorded, in order, in a list of calls.
\<close>

record peer_connection =
  senders :: "nat list"

record data_channel =
  label :: string

datatype rtc_call =
    NewPeerConnection
  | AddTrack nat
  | CreateDataChannel
  | CreateOffer
  | SetLocalDescription
  | Signal
  | SetRemoteDescription
  | OnError jserror
  | CloseDataChannel
  | ClosePeerConnection
  | StopTrack nat
  | SetEnabled nat bool

record session =
  apiKey :: string
  streamType :: string
  useSessionToken :: bool
  ms :: "mediastream option"
  pc :: "peer_connection option"
  dc :: "data_channel option"
  muted :: bool

text \<open>The constructor.\<close>

definition Session_new :: "string \<Rightarrow> string \<Rightarrow> session" where
  "Session_new key role =
     \<lparr>apiKey = key, streamType = role, useSessionToken = True,
      ms = None, pc = None, dc = None, muted = False\<rparr>"

text \<open>
  \<open>stop()\<close>: every handle is reached through \<open>?.\<close>, so a null handle is skipped.
\<close>

definition stop :: "session \<Rightarrow> rtc_call list \<Rightarrow> session \<times> rtc_call list" where
  "stop s calls =
     (let calls1 = (case dc s of None \<Rightarrow> calls | Some d \<Rightarrow> calls @ [CloseDataChannel]);
          s1 = s\<lparr>dc := None\<rparr>;
          calls2 = (case pc s1 of None \<Rightarrow> calls1 | Some p \<Rightarrow> calls1 @ [ClosePeerConnection]);
          s2 = s1\<lparr>pc := None\<rparr>;
          calls3 = (case ms s2 of None \<Rightarrow> calls2 | Some st \<Rightarrow> calls2 @ map (\<lambda>t. StopTrack (tid t)) st);
          s3 = s2\<lparr>ms := None\<rparr>
      in (s3\<lparr>muted := False\<rparr>, calls3))"

text \<open>
  \<open>mute(muted)\<close>: the flag is stored first, then \<open>this.pc.getSenders()\<close> is called on the
  handle with no guard.
\<close>

definition mute :: "session \<Rightarrow> bool \<Rightarrow> rtc_call list \<Rightarrow> (jserror + unit) \<times> session \<times> rtc_call list" where
  "mute s flag calls =
     (let s1 = s\<lparr>muted := flag\<rparr>
      in case pc s1 of
           None \<Rightarrow> (Inl (nullDeref ''this.pc.getSenders''), s1, calls)
         | Some p \<Rightarrow> (Inr (), s1, calls @ map (\<lambda>i. SetEnabled i (\<not> flag)) (senders p)))"

subsection \<open>Session.signal\<close>

text \<open>
  The two network calls of \<open>signal\<close> are answered by the remote endpoint. Each \<open>fetch\<close>
  either rejects or resolves with a response whose \<open>ok\<close> flag is read; reading the token
  (\<open>(await sessionResponse.json()).client_secret.value\<close>) and reading the answer text
  (\<open>await sdpResponse.text()\<close>) can fail as well.
\<close>

record net =
  sessionResponse :: "jserror + bool"
  clientSecret :: "jserror + string"
  sdpResponse :: "jserror + bool"
  sdpText :: "jserror + string"

record description =
  dtype :: string
  sdp :: string

definition signal :: "net \<Rightarrow> bool \<Rightarrow> jserror + description" where
  "signal nw useToken =
     (let exchange =
            (case sdpResponse nw of
               Inl e \<Rightarrow> Inl e
             | Inr ok \<Rightarrow>
                 if \<not> ok then Inl (mkError ''Failed to signal'')
                 else (case sdpText nw of
                         Inl e \<Rightarrow> Inl e
                       | Inr txt \<Rightarrow> Inr \<lparr>dtype = ''answer'', sdp = txt\<rparr>))
      in if useToken then
           (case sessionResponse nw of
              Inl e \<Rightarrow> Inl e
            | Inr ok \<Rightarrow>
                if \<not> ok then Inl (mkError ''Failed to request session token'')
                else (case clientSecret nw of Inl e \<Rightarrow> Inl e | Inr secret \<Rightarrow> exchange))
         else exchange)"

subsection \<open>Session.startInternal, start and startTranscription\<close>

text \<open>
  The WebRTC calls made while a session starts. Constructing the connection, attaching the
  track and creating the channel throw synchronously; \<open>createOffer\<close>,
  \<open>setLocalDescription\<close> and \<open>setRemoteDescription\<close> reject. \<open>None\<close> is success.
\<close>

record rtc =
  newPeerConnection :: "jserror option"
  addTrack :: "jserror option"
  createDataChannel :: "jserror option"
  createOffer :: "jserror + string"
  setLocalDescription :: "jserror option"
  setRemoteDescription :: "jserror option"

text \<open>
  The \<open>onerror\<close> property is assigned by the owner of the session after construction and
  may be left unset. A handler receives the error, may change the session it belongs to
  (the renderer's handler stops it) and may itself throw.
\<close>

type_synonym error_handler = "jserror \<Rightarrow> session \<Rightarrow> (jserror + unit) \<times> session"

text \<open>
  The \<open>try\<close> block of \<open>startInternal\<close>: the signaling exchange, then the remote
  description.
\<close>

definition negotiate :: "rtc \<Rightarrow> net \<Rightarrow> string \<Rightarrow> session \<Rightarrow> rtc_call list \<Rightarrow> (jserror + unit) \<times> rtc_call list" where
  "negotiate env nw tokenEndpoint s calls =
     (case signal nw (useSessionToken s) of
        Inl e \<Rightarrow> (Inl e, calls @ [Signal])
      | Inr answer \<Rightarrow>
          (case setRemoteDescription env of
             Some e \<Rightarrow> (Inl e, calls @ [Signal, SetRemoteDescription])
           | None \<Rightarrow> (Inr (), calls @ [Signal, SetRemoteDescription])))"

text \<open>
  \<open>stream.getTracks()[0]\<close> is \<open>undefined\<close> for a stream without tracks, and
  \<open>addTrack(undefined)\<close> throws a TypeError.
\<close>

definition startInternal ::
  "rtc \<Rightarrow> net \<Rightarrow> error_handler option \<Rightarrow> mediastream \<Rightarrow> string \<Rightarrow> session \<Rightarrow> rtc_call list
     \<Rightarrow> (jserror + unit) \<times> session \<times> rtc_call list" where
  "startInternal env nw onerror stream tokenEndpoint s calls =
     (let s1 = s\<lparr>ms := Some stream\<rparr>;
          calls1 = calls @ [NewPeerConnection]
      in case newPeerConnection env of
           Some e \<Rightarrow> (Inl e, s1, calls1)
         | None \<Rightarrow>
      (let s2 = s1\<lparr>pc := Some \<lparr>senders = []\<rparr>\<rparr>
       in case stream of
            [] \<Rightarrow> (Inl \<lparr>ename = ''TypeError'', emessage = Some ''addTrack: parameter 1 is not a MediaStreamTrack''\<rparr>, s2, calls1)
          | t # rest \<Rightarrow>
      (let calls2 = calls1 @ [AddTrack (tid t)]
       in case addTrack env of
            Some e \<Rightarrow> (Inl e, s2, calls2)
          | None \<Rightarrow>
      (let s3 = s2\<lparr>pc := Some \<lparr>senders = [tid t]\<rparr>\<rparr>;
           calls3 = calls2 @ [CreateDataChannel]
       in case createDataChannel env of
            Some e \<Rightarrow> (Inl e, s3, calls3)
          | None \<Rightarrow>
      (let s4 = s3\<lparr>dc := Some \<lparr>label = []\<rparr>\<rparr>;
           calls4 = calls3 @ [CreateOffer]
       in case createOffer env of
            Inl e \<Rightarrow> (Inl e, s4, calls4)
          | Inr offer \<Rightarrow>
      (let calls5 = calls4 @ [SetLocalDescription]
       in case setLocalDescription env of
            Some e \<Rightarrow> (Inl e, s4, calls5)
          | None \<Rightarrow>
      (case negotiate env nw tokenEndpoint s4 calls5 of
         (Inr u, calls6) \<Rightarrow> (Inr (), s4, calls6)
       | (Inl e, calls6) \<Rightarrow>
           (case onerror of
              None \<Rightarrow> (Inr (), s4, calls6)
            | Some handler \<Rightarrow>
                (case handler e s4 of (r, s5) \<Rightarrow> (r, s5, calls6 @ [OnError e]))))))))))"

definition start ::
  "rtc \<Rightarrow> net \<Rightarrow> error_handler option \<Rightarrow> mediastream \<Rightarrow> session \<Rightarrow> rtc_call list
     \<Rightarrow> (jserror + unit) \<times> session \<times> rtc_call list" where
  "start env nw onerror stream s calls =
     startInternal env nw onerror stream ''/v1/realtime/sessions'' s calls"

definition startTranscription ::
  "rtc \<Rightarrow> net \<Rightarrow> error_handler option \<Rightarrow> mediastream \<Rightarrow> session \<Rightarrow> rtc_call list
     \<Rightarrow> (jserror + unit) \<times> session \<times> rtc_call list" where
  "startTranscription env nw onerror stream s calls =
     startInternal env nw onerror stream ''/v1/realtime/transcription_sessions'' s calls"

text \<open>
  What the setup steps of \<open>startInternal\<close> report: the first error among constructing the
  connection, attaching the track, creating the channel, creating the offer and setting the
  local description, or \<open>None\<close> when all five succeed.
\<close>

definition setupError :: "rtc \<Rightarrow> mediastream \<Rightarrow> jserror option" where
  "setupError env stream =
     (case newPeerConnection env of
        Some e \<Rightarrow> Some e
      | None \<Rightarrow>
          (case stream of
             [] \<Rightarrow> Some \<lparr>ename = ''TypeError'', emessage = Some ''addTrack: parameter 1 is not a MediaStreamTrack''\<rparr>
           | t # rest \<Rightarrow>
               (case addTrack env of
                  Some e \<Rightarrow> Some e
                | None \<Rightarrow>
                    (case createDataChannel env of
                       Some e \<Rightarrow> Some e
                     | None \<Rightarrow>
                         (case createOffer env of
                            Inl e \<Rightarrow> Some e
                          | Inr offer \<Rightarrow> setLocalDescription env)))))"

text \<open>The errors handed to \<open>onerror\<close>, in order, as a list of calls records them.\<close>

fun reported :: "rtc_call list \<Rightarrow> jserror list" where
  "reported [] = []"
| "reported (OnError e # cs) = e # reported cs"
| "reported (c # cs) = reported cs"

text \<open>
  The session once the setup steps have run: the stream is stored, the connection carries
  the first track of the stream as its only sender, and the channel exists.
\<close>

definition afterSetup :: "mediastream \<Rightarrow> session \<Rightarrow> session" where
  "afterSetup stream s =
     s\<lparr>ms := Some stream, pc := Some \<lparr>senders = map tid (take 1 stream)\<rparr>, dc := Some \<lparr>label = []\<rparr>\<rparr>"

section \<open>public/meetingsRenderer.js: the per-role message handlers\<close>

text \<open>
  The server echoes the session configuration in \<open>transcription_session.created\<close>; the
  handlers read \<open>turn_detection.silence_duration_ms\<close> from the stored echo. Times are
  milliseconds as \<open>performance.now()\<close> reports them, taken here as exact reals.
\<close>

record turn_detection =
  silence_duration_ms :: real

record session_config =
  config_id :: string
  turn_detection :: "turn_detection option"

datatype message =
    SessionCreated "session_config option"
  | SpeechStarted
  | SpeechStopped
  | TranscriptionCompleted "string option"
  | OtherMessage string

text \<open>
  The object handed to the transcript renderer. \<open>latencyMs\<close> is the integer whose decimal
  digits \<open>elapsed.toFixed(0)\<close> prints.
\<close>

record transcript =
  spoken :: "string option"
  partial :: bool
  latencyMs :: "int option"

text \<open>\<open>x.toFixed(0)\<close>: the nearest integer, a tie going away from zero.\<close>

definition toFixed0 :: "real \<Rightarrow> int" where
  "toFixed0 x = (if x < 0 then - \<lfloor>- x + 1 / 2\<rfloor> else \<lfloor>x + 1 / 2\<rfloor>)"

text \<open>
  What a handler reads from the host while it runs: \<open>performance.now()\<close> and
  \<open>new Date().toLocaleTimeString()\<close>.
\<close>

record clock =
  now :: real
  localTime :: string

text \<open>
  The top-level variables of the script that the handlers touch, the text content of the two
  result elements (\<open>None\<close> when \<open>getElementById\<close> finds no element), and the transcript
  objects each renderer has been handed.
\<close>

record renderer =
  microphoneSessionConfig :: "session_config option"
  systemAudioSessionConfig :: "session_config option"
  microphoneVadTime :: real
  systemAudioVadTime :: real
  micResults :: "string option"
  speakerResults :: "string option"
  micTranscripts :: "transcript list"
  speakerTranscripts :: "transcript list"

text \<open>The state when the script has loaded, given what the page holds.\<close>

definition renderer0 :: "string option \<Rightarrow> string option \<Rightarrow> renderer" where
  "renderer0 micEl spkEl =
     \<lparr>microphoneSessionConfig = None, systemAudioSessionConfig = None,
      microphoneVadTime = 0, systemAudioVadTime = 0,
      micResults = micEl, speakerResults = spkEl,
      micTranscripts = [], speakerTranscripts = []\<rparr>"

text \<open>The line a renderer appends: \<open>`${prefix} ${text}\n`\<close>.\<close>

definition transcriptLine :: "transcript \<Rightarrow> string \<Rightarrow> string \<Rightarrow> string" where
  "transcriptLine t txt stamp =
     (if partial t then [] else ''['' @ stamp @ '']'') @ '' '' @ txt @ [CHR 0x0A]"

definition handleMicrophoneTranscript :: "transcript \<Rightarrow> clock \<Rightarrow> renderer \<Rightarrow> renderer" where
  "handleMicrophoneTranscript t clk st =
     (let st1 = st\<lparr>micTranscripts := micTranscripts st @ [t]\<rparr>
      in case spoken t of
           None \<Rightarrow> st1
         | Some txt \<Rightarrow>
             if txt = [] then st1
             else (case micResults st1 of
                     None \<Rightarrow> st1
                   | Some content \<Rightarrow>
                       st1\<lparr>micResults := Some (content @ transcriptLine t txt (localTime clk))\<rparr>))"

definition handleSystemAudioTranscript :: "transcript \<Rightarrow> clock \<Rightarrow> renderer \<Rightarrow> renderer" where
  "handleSystemAudioTranscript t clk st =
     (let st1 = st\<lparr>speakerTranscripts := speakerTranscripts st @ [t]\<rparr>
      in case spoken t of
           None \<Rightarrow> st1
         | Some txt \<Rightarrow>
             if txt = [] then st1
             else (case speakerResults st1 of
                     None \<Rightarrow> st1
                   | Some content \<Rightarrow>
                       st1\<lparr>speakerResults := Some (content @ transcriptLine t txt (localTime clk))\<rparr>))"

text \<open>The placeholder both handlers render when speech starts or stops.\<close>

definition ellipsis :: transcript where
  "ellipsis = \<lparr>spoken = Some ''...'', partial = True, latencyMs = None\<rparr>"

fun handleMicrophoneMessage :: "message \<Rightarrow> clock \<Rightarrow> renderer \<Rightarrow> (jserror + unit) \<times> renderer" where
  "handleMicrophoneMessage (SessionCreated cfg) clk st =
     (let st1 = st\<lparr>microphoneSessionConfig := cfg\<rparr>
      in case cfg of
           None \<Rightarrow> (Inl (nullDeref ''microphoneSessionConfig.id''), st1)
         | Some c \<Rightarrow> (Inr (), st1))"
| "handleMicrophoneMessage SpeechStarted clk st =
     (Inr (), handleMicrophoneTranscript ellipsis clk st)"
| "handleMicrophoneMessage SpeechStopped clk st =
     (let st1 = handleMicrophoneTranscript ellipsis clk st
      in case microphoneSessionConfig st1 of
           None \<Rightarrow> (Inl (nullDeref ''microphoneSessionConfig.turn_detection''), st1)
         | Some c \<Rightarrow>
             (case turn_detection c of
                None \<Rightarrow> (Inl (nullDeref ''microphoneSessionConfig.turn_detection.silence_duration_ms''), st1)
              | Some td \<Rightarrow>
                  (Inr (), st1\<lparr>microphoneVadTime := now clk - silence_duration_ms td\<rparr>)))"
| "handleMicrophoneMessage (TranscriptionCompleted txt) clk st =
     (let elapsed = now clk - microphoneVadTime st
      in (Inr (), handleMicrophoneTranscript
                    \<lparr>spoken = txt, partial = False, latencyMs = Some (toFixed0 elapsed)\<rparr> clk st))"
| "handleMicrophoneMessage (OtherMessage ty) clk st = (Inr (), st)"

fun handleSystemAudioMessage :: "message \<Rightarrow> clock \<Rightarrow> renderer \<Rightarrow> (jserror + unit) \<times> renderer" where
  "handleSystemAudioMessage (SessionCreated cfg) clk st =
     (let st1 = st\<lparr>systemAudioSessionConfig := cfg\<rparr>
      in case cfg of
           None \<Rightarrow> (Inl (nullDeref ''systemAudioSessionConfig.id''), st1)
         | Some c \<Rightarrow> (Inr (), st1))"
| "handleSystemAudioMessage SpeechStarted clk st =
     (Inr (), handleSystemAudioTranscript ellipsis clk st)"
| "handleSystemAudioMessage SpeechStopped clk st =
     (let st1 = handleSystemAudioTranscript ellipsis clk st
      in case systemAudioSessionConfig st1 of
           None \<Rightarrow> (Inl (nullDeref ''systemAudioSessionConfig.turn_detection''), st1)
         | Some c \<Rightarrow>
             (case turn_detection c of
                None \<Rightarrow> (Inl (nullDeref ''systemAudioSessionConfig.turn_detection.silence_duration_ms''), st1)
              | Some td \<Rightarrow>
                  (Inr (), st1\<lparr>systemAudioVadTime := now clk - silence_duration_ms td\<rparr>)))"
| "handleSystemAudioMessage (TranscriptionCompleted txt) clk st =
     (let elapsed = now clk - systemAudioVadTime st
      in (Inr (), handleSystemAudioTranscript
                    \<lparr>spoken = txt, partial = False, latencyMs = Some (toFixed0 elapsed)\<rparr> clk st))"
| "handleSystemAudioMessage (OtherMessage ty) clk st = (Inr (), st)"

text \<open>
  The two sessions deliver their messages to the two handlers in whatever order the data
  channels fire. An exception thrown by a handler ends that one event callback; the state
  it had written stays, and later messages are still delivered.
\<close>

datatype role = Microphone | SystemAudio

record delivery =
  source :: role
  payload :: message
  moment :: clock

definition onmessage :: "delivery \<Rightarrow> renderer \<Rightarrow> (jserror + unit) \<times> renderer" where
  "onmessage d st =
     (case source d of
        Microphone \<Rightarrow> handleMicrophoneMessage (payload d) (moment d) st
      | SystemAudio \<Rightarrow> handleSystemAudioMessage (payload d) (moment d) st)"

fun deliver :: "delivery list \<Rightarrow> renderer \<Rightarrow> renderer" where
  "deliver [] st = st"
| "deliver (d # ds) st = deliver ds (snd (onmessage d st))"

text \<open>What belongs to one role: its configuration, its baseline, its element and its transcripts.\<close>

definition microphoneView :: "renderer \<Rightarrow> session_config option \<times> real \<times> string option \<times> transcript list" where
  "microphoneView st =
     (microphoneSessionConfig st, microphoneVadTime st, micResults st, micTranscripts st)"

definition systemAudioView :: "renderer \<Rightarrow> session_config option \<times> real \<times> string option \<times> transcript list" where
  "systemAudioView st =
     (systemAudioSessionConfig st, systemAudioVadTime st, speakerResults st, speakerTranscripts st)"


section \<open>Strings the capture helper builds and inspects\<close>

text \<open>\<open>s.includes(p)\<close>: whether \<open>p\<close> occurs in \<open>s\<close> as a contiguous run.\<close>

fun startsWith :: "string \<Rightarrow> string \<Rightarrow> bool" where
  "startsWith s [] = True"
| "startsWith [] (p # ps) = False"
| "startsWith (c # cs) (p # ps) = (c = p \<and> startsWith cs ps)"

fun str_includes :: "string \<Rightarrow> string \<Rightarrow> bool" where
  "str_includes [] p = (p = [])"
| "str_includes (c # cs) p = (startsWith (c # cs) p \<or> str_includes cs p)"

text \<open>\<open>toLowerCase\<close> on the ASCII letters a platform string is made of.\<close>

definition lowerChar :: "char \<Rightarrow> char" where
  "lowerChar c =
     (case map_of (zip ''ABCDEFGHIJKLMNOPQRSTUVWXYZ'' ''abcdefghijklmnopqrstuvwxyz'') c of
        None \<Rightarrow> c
      | Some l \<Rightarrow> l)"

definition toLowerCase :: "string \<Rightarrow> string" where
  "toLowerCase s = map lowerChar s"

text \<open>A count as a template literal prints it.\<close>

definition digitChar :: "nat \<Rightarrow> char" where
  "digitChar d = ''0123456789'' ! d"

function showNat :: "nat \<Rightarrow> string" where
  "showNat n = (if n < 10 then [digitChar n] else showNat (n div 10) @ [digitChar (n mod 10)])"
  by pat_completeness auto
termination
  by (relation "measure id") auto

declare showNat.simps [simp del]

text \<open>\<open>lastError?.message || 'Unknown error'\<close>: a missing or empty message is replaced.\<close>

definition messageOr :: "jserror option \<Rightarrow> string" where
  "messageOr lastError =
     (case lastError of
        None \<Rightarrow> ''Unknown error''
      | Some e \<Rightarrow>
          (case emessage e of
             None \<Rightarrow> ''Unknown error''
           | Some m \<Rightarrow> if m = [] then ''Unknown error'' else m))"

section \<open>The host the capture code runs in\<close>

text \<open>
  \<open>window.electronAPI.enableLoopbackAudio\<close>, \<open>window.electronAPI.disableLoopbackAudio\<close>
  and \<open>navigator.mediaDevices.getDisplayMedia\<close> may each be undefined. When present, a
  function tells how its n-th call (counted from 0) ends. An enable call rejects, or
  resolves with an object whose \<open>error\<close> property may be set.
\<close>

datatype enable_outcome = Rejects jserror | Resolves "string option"

record host =
  platform :: "string option"
  helperLoaded :: bool
  enableLoopbackAudio :: "(nat \<Rightarrow> enable_outcome) option"
  disableLoopbackAudio :: "(nat \<Rightarrow> jserror option) option"
  getDisplayMedia :: "(nat \<Rightarrow> jserror + mediastream) option"

text \<open>
  What a run does to the host, in order: calls of the two intercept functions, calls of
  \<open>getDisplayMedia\<close>, timer waits with their length in milliseconds, and entries into
  the helper's \<open>disableLoopbackAudioSafe\<close>.
\<close>

datatype host_call =
    EnableLoopback
  | DisableLoopback
  | DisableSafe
  | GetDisplayMedia
  | Delay nat

text \<open>Calling a property that is undefined.\<close>

definition notAFunction :: "string \<Rightarrow> jserror" where
  "notAFunction what = \<lparr>ename = ''TypeError'', emessage = Some (what @ '' is not a function'')\<rparr>"

section \<open>Tracks of a captured stream\<close>

definition getVideoTracks :: "mediastream \<Rightarrow> track list" where
  "getVideoTracks stream = filter (\<lambda>t. kind t = VideoKind) stream"

definition getAudioTracks :: "mediastream \<Rightarrow> track list" where
  "getAudioTracks stream = filter (\<lambda>t. kind t = AudioKind) stream"

text \<open>
  A value an expression statement may produce. \<open>MediaStreamTrack.stop()\<close> and
  \<open>MediaStream.removeTrack()\<close> both return \<open>undefined\<close>; \<open>a && b\<close> evaluates \<open>b\<close>
  only when \<open>a\<close> is truthy.
\<close>

datatype jsvalue = Undefined | Boolean bool

definition truthy :: "jsvalue \<Rightarrow> bool" where
  "truthy v = (case v of Undefined \<Rightarrow> False | Boolean b \<Rightarrow> b)"

definition track_stop :: "track \<Rightarrow> mediastream \<Rightarrow> jsvalue \<times> mediastream" where
  "track_stop t stream =
     (Undefined, map (\<lambda>u. if tid u = tid t then u\<lparr>ended := True\<rparr> else u) stream)"

definition removeTrack :: "track \<Rightarrow> mediastream \<Rightarrow> jsvalue \<times> mediastream" where
  "removeTrack t stream = (Undefined, filter (\<lambda>u. tid u \<noteq> tid t) stream)"

section \<open>public/windowsAudioCapture.js\<close>

definition isWindows :: "host \<Rightarrow> bool" where
  "isWindows h =
     (case platform h of
        None \<Rightarrow> False
      | Some p \<Rightarrow> str_includes (toLowerCase p) ''win'')"

definition validateLoopbackAudio :: "host \<Rightarrow> bool" where
  "validateLoopbackAudio h = (case enableLoopbackAudio h of None \<Rightarrow> False | Some f \<Rightarrow> True)"

text \<open>
  The \<open>try\<close> block of \<open>enableLoopbackAudioWithRetry\<close>: validate, call the intercept, wait
  \<open>retryDelay\<close>. The resolved value of the call is not looked at.
\<close>

definition enableOnce :: "host \<Rightarrow> nat \<Rightarrow> host_call list \<Rightarrow> (jserror + unit) \<times> host_call list" where
  "enableOnce h retryDelay calls =
     (if \<not> validateLoopbackAudio h then (Inl (mkError ''Loopback audio API not available''), calls)
      else (case enableLoopbackAudio h of
              None \<Rightarrow> (Inl (notAFunction ''window.electronAPI.enableLoopbackAudio''), calls)
            | Some enable \<Rightarrow>
                (case enable (count_list calls EnableLoopback) of
                   Rejects e \<Rightarrow> (Inl e, calls @ [EnableLoopback])
                 | Resolves r \<Rightarrow> (Inr (), calls @ [EnableLoopback, Delay retryDelay]))))"

text \<open>
  The \<open>for\<close> loop of \<open>enableLoopbackAudioWithRetry\<close>, entered at \<open>attempt\<close> with the
  error of the attempt before it, and the \<open>throw\<close> that follows the loop.
\<close>

function enableLoop ::
  "host \<Rightarrow> nat \<Rightarrow> nat \<Rightarrow> nat \<Rightarrow> jserror option \<Rightarrow> host_call list \<Rightarrow> (jserror + unit) \<times> host_call list" where
  "enableLoop h maxRetries retryDelay attempt lastError calls =
     (if attempt \<le> maxRetries then
        (case enableOnce h retryDelay calls of
           (Inr u, calls1) \<Rightarrow> (Inr (), calls1)
         | (Inl e, calls1) \<Rightarrow>
             enableLoop h maxRetries retryDelay (attempt + 1) (Some e)
               (if attempt < maxRetries then calls1 @ [Delay retryDelay] else calls1))
      else (Inl (mkError (''Failed to enable loopback audio after '' @ showNat maxRetries
                            @ '' attempts: '' @ messageOr lastError)), calls))"
  by pat_completeness auto
termination
  by (relation "measure (\<lambda>(h, maxRetries, retryDelay, attempt, lastError, calls). Suc maxRetries - attempt)") auto

declare enableLoop.simps [simp del]

definition enableLoopbackAudioWithRetry ::
  "host \<Rightarrow> nat \<Rightarrow> nat \<Rightarrow> host_call list \<Rightarrow> (jserror + unit) \<times> host_call list" where
  "enableLoopbackAudioWithRetry h maxRetries retryDelay calls =
     enableLoop h maxRetries retryDelay 1 None calls"

text \<open>
  The \<open>try\<close> block of \<open>captureSystemAudioWindows\<close>: enable with a budget of two, then
  call \<open>getDisplayMedia\<close>. The constraints object built from \<open>options\<close> goes to the host
  unread, and the audio-track count only chooses a console message.
\<close>

definition captureOnce :: "host \<Rightarrow> nat \<Rightarrow> host_call list \<Rightarrow> (jserror + mediastream) \<times> host_call list" where
  "captureOnce h retryDelay calls =
     (case enableLoopbackAudioWithRetry h 2 retryDelay calls of
        (Inl e, calls1) \<Rightarrow> (Inl e, calls1)
      | (Inr u, calls1) \<Rightarrow>
          (case getDisplayMedia h of
             None \<Rightarrow> (Inl (notAFunction ''navigator.mediaDevices.getDisplayMedia''), calls1)
           | Some capture \<Rightarrow>
               (capture (count_list calls1 GetDisplayMedia), calls1 @ [GetDisplayMedia])))"

text \<open>
  The test the \<open>catch\<close> block makes under the comment ``Check if it's a
  NotSupportedError'': \<open>error.name === 'NotSupportedError' ||
  error.message?.includes('Not supported')\<close>.
\<close>

definition isNotSupported :: "jserror \<Rightarrow> bool" where
  "isNotSupported e =
     (ename e = ''NotSupportedError''
      \<or> (case emessage e of None \<Rightarrow> False | Some m \<Rightarrow> str_includes m ''Not supported''))"

text \<open>The wait the \<open>catch\<close> block inserts, when it inserts one.\<close>

definition retryWait :: "nat \<Rightarrow> nat \<Rightarrow> jserror \<Rightarrow> nat" where
  "retryWait retryDelay attempt e = (if isNotSupported e then retryDelay * 2 else retryDelay)"

text \<open>The message chosen after the loop, from \<open>lastError?.name\<close> alone.\<close>

definition notSupportedAdvice :: string where
  "notSupportedAdvice =
     ''System audio capture is not supported. Please ensure:'' @ [CHR 0x0A]
     @ ''1. Windows audio permissions are granted'' @ [CHR 0x0A]
     @ ''2. Audio drivers support loopback capture'' @ [CHR 0x0A]
     @ ''3. electron-audio-loopback is properly initialized''"

definition exhaustedMessage :: "nat \<Rightarrow> jserror option \<Rightarrow> string" where
  "exhaustedMessage maxRetries lastError =
     (if (case lastError of None \<Rightarrow> False | Some e \<Rightarrow> ename e = ''NotSupportedError'')
      then notSupportedAdvice
      else ''Failed to capture system audio after '' @ showNat maxRetries
             @ '' attempts: '' @ messageOr lastError)"

function captureLoop ::
  "host \<Rightarrow> nat \<Rightarrow> nat \<Rightarrow> nat \<Rightarrow> jserror option \<Rightarrow> host_call list
     \<Rightarrow> (jserror + mediastream) \<times> host_call list" where
  "captureLoop h maxRetries retryDelay attempt lastError calls =
     (if attempt \<le> maxRetries then
        (case captureOnce h retryDelay calls of
           (Inr displayStream, calls1) \<Rightarrow> (Inr displayStream, calls1)
         | (Inl e, calls1) \<Rightarrow>
             captureLoop h maxRetries retryDelay (attempt + 1) (Some e)
               (if attempt < maxRetries then calls1 @ [Delay (retryWait retryDelay attempt e)]
                else calls1))
      else (Inl (mkError (exhaustedMessage maxRetries lastError)), calls))"
  by pat_completeness auto
termination
  by (relation "measure (\<lambda>(h, maxRetries, retryDelay, attempt, lastError, calls). Suc maxRetries - attempt)") auto

declare captureLoop.simps [simp del]

definition captureSystemAudioWindows ::
  "host \<Rightarrow> nat \<Rightarrow> nat \<Rightarrow> host_call list \<Rightarrow> (jserror + mediastream) \<times> host_call list" where
  "captureSystemAudioWindows h maxRetries retryDelay calls =
     (case getDisplayMedia h of
        None \<Rightarrow> (Inl (mkError ''getDisplayMedia API is not supported in this browser/environment''), calls)
      | Some capture \<Rightarrow> captureLoop h maxRetries retryDelay 1 None calls)"

text \<open>\<open>disableLoopbackAudioSafe\<close>: whatever the call does is caught and logged.\<close>

definition disableLoopbackAudioSafe :: "host \<Rightarrow> host_call list \<Rightarrow> host_call list" where
  "disableLoopbackAudioSafe h calls =
     (case disableLoopbackAudio h of
        None \<Rightarrow> calls @ [DisableSafe]
      | Some disable \<Rightarrow> calls @ [DisableSafe, DisableLoopback])"

text \<open>
  The body of the \<open>forEach\<close> in \<open>captureWindowsSystemAudio\<close>: two statements,
  \<open>track.stop(); displayStream.removeTrack(track);\<close>.
\<close>

definition stopAndRemove :: "track \<Rightarrow> mediastream \<Rightarrow> mediastream" where
  "stopAndRemove t stream = snd (removeTrack t (snd (track_stop t stream)))"

definition dropVideoTracks :: "mediastream \<Rightarrow> mediastream" where
  "dropVideoTracks stream = fold stopAndRemove (getVideoTracks stream) stream"

text \<open>
  \<open>captureWindowsSystemAudio\<close> calls the capture with the default budget (3 attempts,
  500 ms). Neither \<open>stop\<close> nor \<open>removeTrack\<close> throws, so the \<open>catch\<close> block is entered
  only from the capture itself, with \<open>displayStream\<close> still null.
\<close>

definition captureWindowsSystemAudio :: "host \<Rightarrow> host_call list \<Rightarrow> (jserror + mediastream) \<times> host_call list" where
  "captureWindowsSystemAudio h calls =
     (if \<not> isWindows h then (Inl (mkError ''This function is only for Windows platform''), calls)
      else (case captureSystemAudioWindows h 3 500 calls of
              (Inr displayStream, calls1) \<Rightarrow> (Inr (dropVideoTracks displayStream), calls1)
            | (Inl e, calls1) \<Rightarrow> (Inl e, disableLoopbackAudioSafe h calls1)))"

section \<open>public/meetingsRenderer.js: platform dispatch and the original capture\<close>

definition detectPlatform :: "host \<Rightarrow> string" where
  "detectPlatform h =
     (case platform h of
        None \<Rightarrow> ''linux''
      | Some p \<Rightarrow>
          if str_includes (toLowerCase p) ''win'' then ''windows''
          else if str_includes (toLowerCase p) ''mac'' then ''mac''
          else ''linux'')"

text \<open>
  The body of the \<open>forEach\<close> in \<open>captureSystemAudioMacOS\<close>: one expression,
  \<open>t.stop() && displayStream.removeTrack(t)\<close>.
\<close>

definition stopAndThenRemove :: "track \<Rightarrow> mediastream \<Rightarrow> mediastream" where
  "stopAndThenRemove t stream =
     (case track_stop t stream of
        (v, stream1) \<Rightarrow> if truthy v then snd (removeTrack t stream1) else stream1)"

definition captureSystemAudioMacOS :: "host \<Rightarrow> host_call list \<Rightarrow> (jserror + mediastream) \<times> host_call list" where
  "captureSystemAudioMacOS h calls =
     (case enableLoopbackAudio h of
        None \<Rightarrow> (Inl (notAFunction ''window.electronAPI.enableLoopbackAudio''), calls)
      | Some enable \<Rightarrow>
     (case enable (count_list calls EnableLoopback) of
        Rejects e \<Rightarrow> (Inl e, calls @ [EnableLoopback])
      | Resolves r \<Rightarrow>
     (case getDisplayMedia h of
        None \<Rightarrow> (Inl (notAFunction ''navigator.mediaDevices.getDisplayMedia''), calls @ [EnableLoopback])
      | Some capture \<Rightarrow>
     (case capture (count_list calls GetDisplayMedia) of
        Inl e \<Rightarrow> (Inl e, calls @ [EnableLoopback, GetDisplayMedia])
      | Inr displayStream \<Rightarrow>
     (case disableLoopbackAudio h of
        None \<Rightarrow> (Inl (notAFunction ''window.electronAPI.disableLoopbackAudio''),
                 calls @ [EnableLoopback, GetDisplayMedia])
      | Some disable \<Rightarrow>
     (case disable (count_list calls DisableLoopback) of
        Some e \<Rightarrow> (Inl e, calls @ [EnableLoopback, GetDisplayMedia, DisableLoopback])
      | None \<Rightarrow>
          (Inr (fold stopAndThenRemove (getVideoTracks displayStream) displayStream),
           calls @ [EnableLoopback, GetDisplayMedia, DisableLoopback])))))))"

text \<open>
  The renderer's own \<open>captureSystemAudioWindows\<close>, which wraps the helper's entry point
  and disables once more when it throws.
\<close>

definition renderer_captureSystemAudioWindows ::
  "host \<Rightarrow> host_call list \<Rightarrow> (jserror + mediastream) \<times> host_call list" where
  "renderer_captureSystemAudioWindows h calls =
     (if \<not> helperLoaded h then
        (Inl (mkError ''Windows audio capture helper not loaded. Please ensure windowsAudioCapture.js is loaded before meetingsRenderer.js''), calls)
      else (case captureWindowsSystemAudio h calls of
              (Inr displayStream, calls1) \<Rightarrow> (Inr displayStream, calls1)
            | (Inl e, calls1) \<Rightarrow> (Inl e, disableLoopbackAudioSafe h calls1)))"

definition captureSystemAudio :: "host \<Rightarrow> host_call list \<Rightarrow> (jserror + mediastream) \<times> host_call list" where
  "captureSystemAudio h calls =
     (if detectPlatform h = ''windows'' then renderer_captureSystemAudioWindows h calls
      else captureSystemAudioMacOS h calls)"

section \<open>The revision of windowsAudioCapture.js in unnamed/part_001 (lines 1 to 302)\<close>

text \<open>
  This revision differs from the published one in the validation (it makes a test call),
  in the delays, and in looking at the \<open>error\<close> property of what the enable call
  resolves with. A property that is missing or an empty string is falsy.
\<close>

definition resolvedError :: "string option \<Rightarrow> string option" where
  "resolvedError r = (case r of None \<Rightarrow> None | Some m \<Rightarrow> if m = [] then None else Some m)"

definition validateLoopbackAudio_rev :: "host \<Rightarrow> host_call list \<Rightarrow> bool \<times> host_call list" where
  "validateLoopbackAudio_rev h calls =
     (case enableLoopbackAudio h of
        None \<Rightarrow> (False, calls)
      | Some enable \<Rightarrow>
          (case enable (count_list calls EnableLoopback) of
             Rejects e \<Rightarrow> (True, calls @ [EnableLoopback])
           | Resolves r \<Rightarrow>
               (case resolvedError r of
                  Some m \<Rightarrow> (False, calls @ [EnableLoopback])
                | None \<Rightarrow>
                    (case disableLoopbackAudio h of
                       None \<Rightarrow> (True, calls @ [EnableLoopback])
                     | Some disable \<Rightarrow> (True, calls @ [EnableLoopback, DisableLoopback])))))"

definition enableOnce_rev ::
  "host \<Rightarrow> nat \<Rightarrow> nat \<Rightarrow> host_call list \<Rightarrow> (jserror + unit) \<times> host_call list" where
  "enableOnce_rev h retryDelay attempt calls =
     (case validateLoopbackAudio_rev h calls of
        (False, calls1) \<Rightarrow> (Inl (mkError ''Loopback audio API not available''), calls1)
      | (True, calls1) \<Rightarrow>
          (case enableLoopbackAudio h of
             None \<Rightarrow> (Inl (notAFunction ''window.electronAPI.enableLoopbackAudio''), calls1)
           | Some enable \<Rightarrow>
               (case enable (count_list calls1 EnableLoopback) of
                  Rejects e \<Rightarrow> (Inl e, calls1 @ [EnableLoopback])
                | Resolves r \<Rightarrow>
                    (case resolvedError r of
                       Some m \<Rightarrow> (Inl (mkError m), calls1 @ [EnableLoopback])
                     | None \<Rightarrow>
                         (Inr (), calls1 @ [EnableLoopback,
                                            Delay (if attempt = 1 then 1000 else retryDelay)])))))"

function enableLoop_rev ::
  "host \<Rightarrow> nat \<Rightarrow> nat \<Rightarrow> nat \<Rightarrow> jserror option \<Rightarrow> host_call list \<Rightarrow> (jserror + unit) \<times> host_call list" where
  "enableLoop_rev h maxRetries retryDelay attempt lastError calls =
     (if attempt \<le> maxRetries then
        (case enableOnce_rev h retryDelay attempt calls of
           (Inr u, calls1) \<Rightarrow> (Inr (), calls1)
         | (Inl e, calls1) \<Rightarrow>
             enableLoop_rev h maxRetries retryDelay (attempt + 1) (Some e)
               (if attempt < maxRetries then calls1 @ [Delay (attempt * retryDelay)] else calls1))
      else (Inl (mkError (''Failed to enable loopback audio after '' @ showNat maxRetries
                            @ '' attempts: '' @ messageOr lastError)), calls))"
  by pat_completeness auto
termination
  by (relation "measure (\<lambda>(h, maxRetries, retryDelay, attempt, lastError, calls). Suc maxRetries - attempt)") auto

declare enableLoop_rev.simps [simp del]

definition enableLoopbackAudioWithRetry_rev ::
  "host \<Rightarrow> nat \<Rightarrow> nat \<Rightarrow> host_call list \<Rightarrow> (jserror + unit) \<times> host_call list" where
  "enableLoopbackAudioWithRetry_rev h maxRetries retryDelay calls =
     enableLoop_rev h maxRetries retryDelay 1 None calls"

definition captureOnce_rev ::
  "host \<Rightarrow> nat \<Rightarrow> host_call list \<Rightarrow> (jserror + mediastream) \<times> host_call list" where
  "captureOnce_rev h attempt calls =
     (case enableLoopbackAudioWithRetry_rev h 2 800 calls of
        (Inl e, calls1) \<Rightarrow> (Inl e, calls1)
      | (Inr u, calls1) \<Rightarrow>
          (let calls2 = calls1 @ [Delay (if attempt = 1 then 1500 else 800)]
           in case getDisplayMedia h of
                None \<Rightarrow> (Inl (notAFunction ''navigator.mediaDevices.getDisplayMedia''), calls2)
              | Some capture \<Rightarrow>
                  (capture (count_list calls2 GetDisplayMedia), calls2 @ [GetDisplayMedia])))"

definition retryWait_rev :: "nat \<Rightarrow> nat \<Rightarrow> jserror \<Rightarrow> nat" where
  "retryWait_rev retryDelay attempt e = (if isNotSupported e then attempt * 1000 else retryDelay)"

definition notSupportedAdvice_rev :: string where
  "notSupportedAdvice_rev =
     ''System audio capture is not supported on Windows. Troubleshooting steps:'' @ [CHR 0x0A, CHR 0x0A]
     @ ''1. Ensure electron-audio-loopback is properly initialized (check main process console)'' @ [CHR 0x0A]
     @ ''2. Grant Windows audio permissions in Settings > Privacy > Microphone'' @ [CHR 0x0A]
     @ ''3. Update audio drivers to latest version'' @ [CHR 0x0A]
     @ ''4. Restart the application after granting permissions'' @ [CHR 0x0A]
     @ ''5. Check if other applications can capture system audio'' @ [CHR 0x0A, CHR 0x0A]
     @ ''If the issue persists, this may be a limitation of your Windows audio drivers.''"

definition exhaustedMessage_rev :: "nat \<Rightarrow> jserror option \<Rightarrow> string" where
  "exhaustedMessage_rev maxRetries lastError =
     (if (case lastError of None \<Rightarrow> False | Some e \<Rightarrow> ename e = ''NotSupportedError'')
      then notSupportedAdvice_rev
      else ''Failed to capture system audio after '' @ showNat maxRetries
             @ '' attempts: '' @ messageOr lastError)"

function captureLoop_rev ::
  "host \<Rightarrow> nat \<Rightarrow> nat \<Rightarrow> nat \<Rightarrow> jserror option \<Rightarrow> host_call list
     \<Rightarrow> (jserror + mediastream) \<times> host_call list" where
  "captureLoop_rev h maxRetries retryDelay attempt lastError calls =
     (if attempt \<le> maxRetries then
        (case captureOnce_rev h attempt calls of
           (Inr displayStream, calls1) \<Rightarrow> (Inr displayStream, calls1)
         | (Inl e, calls1) \<Rightarrow>
             captureLoop_rev h maxRetries retryDelay (attempt + 1) (Some e)
               (if attempt < maxRetries then calls1 @ [Delay (retryWait_rev retryDelay attempt e)]
                else calls1))
      else (Inl (mkError (exhaustedMessage_rev maxRetries lastError)), calls))"
  by pat_completeness auto
termination
  by (relation "measure (\<lambda>(h, maxRetries, retryDelay, attempt, lastError, calls). Suc maxRetries - attempt)") auto

declare captureLoop_rev.simps [simp del]

definition captureSystemAudioWindows_rev ::
  "host \<Rightarrow> nat \<Rightarrow> nat \<Rightarrow> host_call list \<Rightarrow> (jserror + mediastream) \<times> host_call list" where
  "captureSystemAudioWindows_rev h maxRetries retryDelay calls =
     (case getDisplayMedia h of
        None \<Rightarrow> (Inl (mkError ''getDisplayMedia API is not supported in this browser/environment''), calls)
      | Some capture \<Rightarrow> captureLoop_rev h maxRetries retryDelay 1 None calls)"

section \<open>Concrete hosts, streams and endpoints\<close>

text \<open>
  A display capture as the intercept delivers it: one audio track and the video track that
  had to be requested with it.
\<close>

definition audioTrack :: track where
  "audioTrack = \<lparr>tid = 1, kind = AudioKind, ended = False\<rparr>"

definition videoTrack :: track where
  "videoTrack = \<lparr>tid = 2, kind = VideoKind, ended = False\<rparr>"

text \<open>A Windows host on which every call succeeds, and the same host on macOS.\<close>

definition windowsHost :: host where
  "windowsHost =
     \<lparr>platform = Some ''Win32'', helperLoaded = True,
      enableLoopbackAudio = Some (\<lambda>k. Resolves None),
      disableLoopbackAudio = Some (\<lambda>k. None),
      getDisplayMedia = Some (\<lambda>k. Inr [audioTrack, videoTrack])\<rparr>"

definition macHost :: host where
  "macHost = windowsHost\<lparr>platform := Some ''MacIntel''\<rparr>"

text \<open>Windows hosts on which every capture call is rejected with the given error.\<close>

definition rejectingHost :: "jserror \<Rightarrow> host" where
  "rejectingHost e = windowsHost\<lparr>getDisplayMedia := Some (\<lambda>k. Inl e)\<rparr>"

definition abortError :: jserror where
  "abortError = \<lparr>ename = ''AbortError'', emessage = Some ''The operation was aborted''\<rparr>"

definition notSupportedByMessage :: jserror where
  "notSupportedByMessage = \<lparr>ename = ''Error'', emessage = Some ''Not supported''\<rparr>"

definition notSupportedByName :: jserror where
  "notSupportedByName = \<lparr>ename = ''NotSupportedError'', emessage = Some ''Not supported''\<rparr>"

text \<open>A Windows host whose preload script exposes no \<open>enableLoopbackAudio\<close>.\<close>

definition hostWithoutEnable :: host where
  "hostWithoutEnable = windowsHost\<lparr>enableLoopbackAudio := None\<rparr>"

text \<open>
  The error \<open>enableLoopbackAudioWithRetry(2, ..)\<close> ends with on such a host.
\<close>

definition enableUnavailable :: jserror where
  "enableUnavailable =
     mkError ''Failed to enable loopback audio after 2 attempts: Loopback audio API not available''"

text \<open>
  A browser in which every WebRTC call succeeds, a token endpoint that answers with a
  non-success status, an endpoint that answers both requests, and an error handler that
  returns without touching the session.
\<close>

definition workingRtc :: rtc where
  "workingRtc =
     \<lparr>newPeerConnection = None, addTrack = None, createDataChannel = None,
      createOffer = Inr ''v=0'', setLocalDescription = None, setRemoteDescription = None\<rparr>"

definition refusingNet :: net where
  "refusingNet =
     \<lparr>sessionResponse = Inr False, clientSecret = Inr ''ek'', sdpResponse = Inr True,
      sdpText = Inr ''v=0''\<rparr>"

definition answeringNet :: net where
  "answeringNet = refusingNet\<lparr>sessionResponse := Inr True\<rparr>"

definition quietHandler :: error_handler where
  "quietHandler e s = (Inr (), s)"

text \<open>An error handler that throws the error it is given.\<close>

definition rethrowingHandler :: error_handler where
  "rethrowingHandler e s = (Inl e, s)"

definition offerRejected :: jserror where
  "offerRejected = \<lparr>ename = ''InvalidStateError'', emessage = Some ''createOffer failed''\<rparr>"

text \<open>
  The scenario of two roles interleaved: both sessions are created with a silence duration
  of 10 ms, the microphone stops speaking at 1000, system audio at 1400, and the
  microphone's final transcript arrives at 1500.
\<close>

definition echoedConfig :: session_config where
  "echoedConfig = \<lparr>config_id = ''sess_1'', turn_detection = Some \<lparr>silence_duration_ms = 10\<rparr>\<rparr>"

definition atTime :: "real \<Rightarrow> clock" where
  "atTime t = \<lparr>now = t, localTime = ''10:00:00''\<rparr>"


text \<open>Whether a delivery is the \<open>transcription_session.created\<close> message of a role.\<close>

definition createdFor :: "role \<Rightarrow> delivery \<Rightarrow> bool" where
  "createdFor r d =
     (source d = r \<and> (case payload d of SessionCreated c \<Rightarrow> True | m \<Rightarrow> False))"

section \<open>Properties of the session\<close>

text \<open>
  C8. \<open>mute(flag)\<close> on a session that was never started, or on one that \<open>stop()\<close> has just
  cleared, throws a TypeError from the null peer-connection handle (after storing the flag),
  while \<open>stop()\<close> in those same two states completes, calls nothing and leaves every handle
  null.
\<close>

theorem mute_throws_without_peer_connection:
  "mute (Session_new key role) flag calls
     = (Inl (nullDeref ''this.pc.getSenders''), (Session_new key role)\<lparr>muted := flag\<rparr>, calls)
   \<and> fst (mute (fst (stop s calls0)) flag calls) = Inl (nullDeref ''this.pc.getSenders'')
   \<and> muted (fst (snd (mute (fst (stop s calls0)) flag calls))) = flag
   \<and> stop (Session_new key role) calls = (Session_new key role, calls)
   \<and> stop (fst (stop s calls0)) calls = (fst (stop s calls0), calls)"
  by (simp add: mute_def stop_def Session_new_def Let_def)

lemma reported_append: "reported (xs @ ys) = reported xs @ reported ys"
  by (induction xs rule: reported.induct) simp_all

text \<open>
  C10. When one of the steps before signaling fails (constructing the peer connection,
  attaching the track, creating the data channel, creating the offer, setting the local
  description), \<open>startInternal\<close>, and with it \<open>start\<close> and \<open>startTranscription\<close>, rejects
  with that error and \<open>onerror\<close> is not called. Whenever a run does call \<open>onerror\<close>, all of
  those steps had succeeded and the error came from the signaling exchange or from setting
  the remote description.
\<close>

theorem setup_errors_reject_start:
  "(setupError env stream = Some e \<longrightarrow>
      fst (startInternal env nw onerror stream endpoint s calls) = Inl e
      \<and> fst (start env nw onerror stream s calls) = Inl e
      \<and> fst (startTranscription env nw onerror stream s calls) = Inl e
      \<and> reported (snd (snd (startInternal env nw onerror stream endpoint s calls))) = reported calls)
   \<and> (reported (snd (snd (startInternal env nw onerror stream endpoint s calls))) \<noteq> reported calls \<longrightarrow>
      setupError env stream = None
      \<and> (\<exists>x. fst (negotiate env nw endpoint s []) = Inl x
              \<and> reported (snd (snd (startInternal env nw onerror stream endpoint s calls))) = reported calls @ [x]))"
  by (auto simp: startInternal_def start_def startTranscription_def setupError_def negotiate_def
        Let_def reported_append
      split: option.splits list.splits sum.splits prod.splits)

theorem setup_errors_reject_start_witness:
  "setupError (workingRtc\<lparr>createOffer := Inl offerRejected\<rparr>) [audioTrack] = Some offerRejected
   \<and> fst (startTranscription (workingRtc\<lparr>createOffer := Inl offerRejected\<rparr>) answeringNet
            (Some quietHandler) [audioTrack] (Session_new ''sk'' ''microphone'') []) = Inl offerRejected
   \<and> reported (snd (snd (startInternal (workingRtc\<lparr>createOffer := Inl offerRejected\<rparr>) answeringNet
            (Some quietHandler) [audioTrack] ''/v1/realtime/transcription_sessions''
            (Session_new ''sk'' ''microphone'') []))) = []"
  using setup_errors_reject_start
          [of "workingRtc\<lparr>createOffer := Inl offerRejected\<rparr>" "[audioTrack]" offerRejected answeringNet
              "Some quietHandler" "''/v1/realtime/transcription_sessions''"
              "Session_new ''sk'' ''microphone''" "[]"]
  by (simp add: setupError_def workingRtc_def)

text \<open>
  C6, as the code has it. When the setup steps have succeeded and the signaling exchange
  fails, or the exchange succeeds and setting the remote description fails, \<open>start\<close>,
  \<open>startTranscription\<close> and \<open>startInternal\<close> hand the error to \<open>this.onerror?.(e)\<close>
  and never throw it themselves. With a handler set, the handler is called once with that
  error, on the session as the setup left it, and the call ends the way the handler ends:
  it rejects exactly when the handler throws. With no handler set the error is dropped:
  nothing is reported and the call completes normally.
\<close>

theorem signaling_failure_goes_to_onerror:
  assumes "setupError env stream = None"
      and "signal nw (useSessionToken s) = Inl e
           \<or> ((\<exists>answer. signal nw (useSessionToken s) = Inr answer) \<and> setRemoteDescription env = Some e)"
  shows
   "((case onerror of
       None \<Rightarrow>
         fst (start env nw onerror stream s calls) = Inr ()
         \<and> reported (snd (snd (start env nw onerror stream s calls))) = reported calls
     | Some handler \<Rightarrow>
         fst (start env nw onerror stream s calls) = fst (handler e (afterSetup stream s))
         \<and> reported (snd (snd (start env nw onerror stream s calls))) = reported calls @ [e])
    \<and> (\<forall>x. fst (start env nw onerror stream s calls) = Inl x \<longrightarrow>
           (\<exists>handler. onerror = Some handler \<and> fst (handler e (afterSetup stream s)) = Inl x)))
   \<and> ((case onerror of
       None \<Rightarrow>
         fst (startTranscription env nw onerror stream s calls) = Inr ()
         \<and> reported (snd (snd (startTranscription env nw onerror stream s calls))) = reported calls
     | Some handler \<Rightarrow>
         fst (startTranscription env nw onerror stream s calls) = fst (handler e (afterSetup stream s))
         \<and> reported (snd (snd (startTranscription env nw onerror stream s calls))) = reported calls @ [e])
    \<and> (\<forall>x. fst (startTranscription env nw onerror stream s calls) = Inl x \<longrightarrow>
           (\<exists>handler. onerror = Some handler \<and> fst (handler e (afterSetup stream s)) = Inl x)))
   \<and> ((case onerror of
       None \<Rightarrow>
         fst (startInternal env nw onerror stream endpoint s calls) = Inr ()
         \<and> reported (snd (snd (startInternal env nw onerror stream endpoint s calls))) = reported calls
     | Some handler \<Rightarrow>
         fst (startInternal env nw onerror stream endpoint s calls) = fst (handler e (afterSetup stream s))
         \<and> reported (snd (snd (startInternal env nw onerror stream endpoint s calls))) = reported calls @ [e])
    \<and> (\<forall>x. fst (startInternal env nw onerror stream endpoint s calls) = Inl x \<longrightarrow>
           (\<exists>handler. onerror = Some handler \<and> fst (handler e (afterSetup stream s)) = Inl x)))"
  using assms
  by (auto simp: start_def startTranscription_def startInternal_def setupError_def negotiate_def
        Let_def reported_append afterSetup_def
      split: option.splits list.splits sum.splits prod.splits)

theorem signaling_failure_goes_to_onerror_witness:
  "setupError workingRtc [audioTrack] = None
   \<and> signal refusingNet True = Inl (mkError ''Failed to request session token'')
   \<and> fst (startTranscription workingRtc refusingNet (Some quietHandler) [audioTrack] (Session_new ''sk'' ''microphone'') []) = Inr ()
   \<and> reported (snd (snd (startTranscription workingRtc refusingNet (Some quietHandler) [audioTrack] (Session_new ''sk'' ''microphone'') [])))
       = [mkError ''Failed to request session token'']
   \<and> fst (start workingRtc refusingNet (Some quietHandler) [audioTrack] (Session_new ''sk'' ''microphone'') []) = Inr ()
   \<and> reported (snd (snd (start workingRtc refusingNet (Some quietHandler) [audioTrack] (Session_new ''sk'' ''microphone'') [])))
       = [mkError ''Failed to request session token'']"
  using signaling_failure_goes_to_onerror
          [of workingRtc "[audioTrack]" refusingNet "Session_new ''sk'' ''microphone''"
              "mkError ''Failed to request session token''" "Some quietHandler" "[]"]
  by (simp add: setupError_def workingRtc_def signal_def refusingNet_def Session_new_def quietHandler_def)

text \<open>
  The two ways the unconditional reading fails, on a session whose token request is
  refused: with no handler set the error reaches nobody, and with a handler that throws
  \<open>startTranscription\<close> rejects with the signaling error.
\<close>

theorem signaling_failure_counterexample:
  "setupError workingRtc [audioTrack] = None
   \<and> signal refusingNet (useSessionToken (Session_new ''sk'' ''microphone''))
       = Inl (mkError ''Failed to request session token'')
   \<and> fst (startTranscription workingRtc refusingNet None [audioTrack] (Session_new ''sk'' ''microphone'') []) = Inr ()
   \<and> reported (snd (snd (startTranscription workingRtc refusingNet None [audioTrack] (Session_new ''sk'' ''microphone'') []))) = []
   \<and> fst (startTranscription workingRtc refusingNet (Some rethrowingHandler) [audioTrack] (Session_new ''sk'' ''microphone'') [])
       = Inl (mkError ''Failed to request session token'')"
  by (simp add: startTranscription_def startInternal_def negotiate_def signal_def setupError_def
        workingRtc_def refusingNet_def Session_new_def rethrowingHandler_def audioTrack_def Let_def)

section \<open>Properties of the message handlers\<close>

text \<open>A handler leaves the other role's state alone and reads only its own.\<close>

lemma microphone_handler_frame:
  "systemAudioView (snd (handleMicrophoneMessage m clk st)) = systemAudioView st"
  by (cases m)
     (auto simp: systemAudioView_def handleMicrophoneTranscript_def Let_def split: option.splits)

lemma systemAudio_handler_frame:
  "microphoneView (snd (handleSystemAudioMessage m clk st)) = microphoneView st"
  by (cases m)
     (auto simp: microphoneView_def handleSystemAudioTranscript_def Let_def split: option.splits)





text \<open>
  Until a role's \<open>transcription_session.created\<close> has been handled, its configuration is
  null and its baseline is the initial one.
\<close>

lemma microphone_not_created:
  "microphoneSessionConfig st = None \<Longrightarrow> \<not> list_ex (createdFor Microphone) ds \<Longrightarrow>
   microphoneSessionConfig (deliver ds st) = None
   \<and> microphoneVadTime (deliver ds st) = microphoneVadTime st"
proof (induction ds arbitrary: st)
  case Nil
  then show ?case by simp
next
  case (Cons d ds)
  have step: "microphoneSessionConfig (snd (onmessage d st)) = None
              \<and> microphoneVadTime (snd (onmessage d st)) = microphoneVadTime st"
  proof (cases "source d")
    case SystemAudio
    then show ?thesis
      using systemAudio_handler_frame[of "payload d" "moment d" st] Cons.prems(1)
      by (simp add: onmessage_def microphoneView_def)
  next
    case Microphone
    with Cons.prems show ?thesis
      by (cases "payload d")
         (auto simp: onmessage_def createdFor_def handleMicrophoneTranscript_def Let_def
               split: option.splits)
  qed
  from Cons.prems(2) have "\<not> list_ex (createdFor Microphone) ds" by simp
  from Cons.IH[OF conjunct1[OF step] this] step show ?case by simp
qed

lemma systemAudio_not_created:
  "systemAudioSessionConfig st = None \<Longrightarrow> \<not> list_ex (createdFor SystemAudio) ds \<Longrightarrow>
   systemAudioSessionConfig (deliver ds st) = None
   \<and> systemAudioVadTime (deliver ds st) = systemAudioVadTime st"
proof (induction ds arbitrary: st)
  case Nil
  then show ?case by simp
next
  case (Cons d ds)
  have step: "systemAudioSessionConfig (snd (onmessage d st)) = None
              \<and> systemAudioVadTime (snd (onmessage d st)) = systemAudioVadTime st"
  proof (cases "source d")
    case Microphone
    then show ?thesis
      using microphone_handler_frame[of "payload d" "moment d" st] Cons.prems(1)
      by (simp add: onmessage_def systemAudioView_def)
  next
    case SystemAudio
    with Cons.prems show ?thesis
      by (cases "payload d")
         (auto simp: onmessage_def createdFor_def handleSystemAudioTranscript_def Let_def
               split: option.splits)
  qed
  from Cons.prems(2) have "\<not> list_ex (createdFor SystemAudio) ds" by simp
  from Cons.IH[OF conjunct1[OF step] this] step show ?case by simp
qed

lemma speech_stopped_null_config:
  "microphoneSessionConfig st = None \<Longrightarrow>
     fst (handleMicrophoneMessage SpeechStopped clk st) = Inl (nullDeref ''microphoneSessionConfig.turn_detection'')
     \<and> microphoneVadTime (snd (handleMicrophoneMessage SpeechStopped clk st)) = microphoneVadTime st"
  "systemAudioSessionConfig st = None \<Longrightarrow>
     fst (handleSystemAudioMessage SpeechStopped clk st) = Inl (nullDeref ''systemAudioSessionConfig.turn_detection'')
     \<and> systemAudioVadTime (snd (handleSystemAudioMessage SpeechStopped clk st)) = systemAudioVadTime st"
  by (auto simp: handleMicrophoneTranscript_def handleSystemAudioTranscript_def Let_def ellipsis_def
      split: option.splits)

text \<open>
  C9. If no \<open>transcription_session.created\<close> has been delivered for a role since the
  script loaded, whatever else has been delivered to either role, then
  \<open>input_audio_buffer.speech_stopped\<close> for that role makes its handler throw the TypeError
  of reading \<open>turn_detection\<close> from the null configuration, and the role's baseline is
  still the initial 0: it has not been recorded.
\<close>

theorem speech_stopped_before_created_throws:
  "(\<not> list_ex (createdFor Microphone) ds \<longrightarrow>
      fst (handleMicrophoneMessage SpeechStopped clk (deliver ds (renderer0 micEl spkEl)))
        = Inl (nullDeref ''microphoneSessionConfig.turn_detection'')
      \<and> microphoneVadTime (snd (handleMicrophoneMessage SpeechStopped clk (deliver ds (renderer0 micEl spkEl)))) = 0)
   \<and> (\<not> list_ex (createdFor SystemAudio) ds \<longrightarrow>
      fst (handleSystemAudioMessage SpeechStopped clk (deliver ds (renderer0 micEl spkEl)))
        = Inl (nullDeref ''systemAudioSessionConfig.turn_detection'')
      \<and> systemAudioVadTime (snd (handleSystemAudioMessage SpeechStopped clk (deliver ds (renderer0 micEl spkEl)))) = 0)"
proof -
  let ?st = "deliver ds (renderer0 micEl spkEl)"
  have mic: "microphoneSessionConfig ?st = None \<and> microphoneVadTime ?st = 0"
    if "\<not> list_ex (createdFor Microphone) ds"
    using microphone_not_created[of "renderer0 micEl spkEl" ds] that by (simp add: renderer0_def)
  have spk: "systemAudioSessionConfig ?st = None \<and> systemAudioVadTime ?st = 0"
    if "\<not> list_ex (createdFor SystemAudio) ds"
    using systemAudio_not_created[of "renderer0 micEl spkEl" ds] that by (simp add: renderer0_def)
  show ?thesis
    using mic spk speech_stopped_null_config(1)[of ?st clk] speech_stopped_null_config(2)[of ?st clk]
    by metis
qed

theorem speech_stopped_before_created_throws_witness:
  "\<not> list_ex (createdFor Microphone)
        [\<lparr>source = SystemAudio, payload = SessionCreated (Some echoedConfig), moment = atTime 120\<rparr>,
         \<lparr>source = Microphone, payload = SpeechStarted, moment = atTime 500\<rparr>]
   \<and> fst (handleMicrophoneMessage SpeechStopped (atTime 1000)
        (deliver [\<lparr>source = SystemAudio, payload = SessionCreated (Some echoedConfig), moment = atTime 120\<rparr>,
                  \<lparr>source = Microphone, payload = SpeechStarted, moment = atTime 500\<rparr>]
           (renderer0 (Some []) (Some []))))
       = Inl (nullDeref ''microphoneSessionConfig.turn_detection'')"
  using speech_stopped_before_created_throws
          [of "[\<lparr>source = SystemAudio, payload = SessionCreated (Some echoedConfig), moment = atTime 120\<rparr>,
                \<lparr>source = Microphone, payload = SpeechStarted, moment = atTime 500\<rparr>]"
              "atTime 1000" "Some []" "Some []"]
  by (simp add: createdFor_def)







section \<open>Properties of the capture helper\<close>

subsection \<open>Strings\<close>

lemma showNat_2: "showNat 2 = ''2''"
  by (simp add: showNat.simps digitChar_def)

lemma showNat_3: "showNat 3 = ''3''"
  by (simp add: showNat.simps digitChar_def)

lemma enableUnavailable_generic: "\<not> isNotSupported enableUnavailable"
  by (simp add: enableUnavailable_def isNotSupported_def mkError_def)

text \<open>The unfoldings that evaluate a run of the published helper on a concrete host.\<close>

lemmas run_capture =
  captureSystemAudio_def detectPlatform_def renderer_captureSystemAudioWindows_def
  captureWindowsSystemAudio_def captureSystemAudioWindows_def captureLoop.simps captureOnce_def
  enableLoopbackAudioWithRetry_def enableLoop.simps enableOnce_def validateLoopbackAudio_def
  isWindows_def toLowerCase_def lowerChar_def disableLoopbackAudioSafe_def
  retryWait_def isNotSupported_def exhaustedMessage_def messageOr_def mkError_def
  showNat.simps digitChar_def

lemmas example_hosts =
  windowsHost_def macHost_def rejectingHost_def hostWithoutEnable_def
  audioTrack_def videoTrack_def abortError_def notSupportedByMessage_def notSupportedByName_def

subsection \<open>Which calls each loop can add\<close>

lemma enableOnce_adds:
  "c \<noteq> EnableLoopback \<Longrightarrow> c \<noteq> Delay d \<Longrightarrow>
   count_list (snd (enableOnce h d calls)) c = count_list calls c"
  by (simp add: enableOnce_def split: option.splits enable_outcome.splits)

lemma enableLoop_adds:
  "c \<noteq> EnableLoopback \<Longrightarrow> c \<noteq> Delay d \<Longrightarrow>
   count_list (snd (enableLoop h m d a l calls)) c = count_list calls c"
proof (induction h m d a l calls rule: enableLoop.induct)
  case (1 h m d a l calls)
  show ?case
  proof (cases "a \<le> m")
    case False
    then show ?thesis by (subst enableLoop.simps) simp
  next
    case True
    obtain r calls1 where once: "enableOnce h d calls = (r, calls1)"
      by (cases "enableOnce h d calls")
    have c1: "count_list calls1 c = count_list calls c"
      using enableOnce_adds[OF "1.prems", of h calls] once by simp
    show ?thesis
    proof (cases r)
      case (Inr u)
      with True once c1 show ?thesis by (subst enableLoop.simps) simp
    next
      case (Inl e)
      let ?next = "if a < m then calls1 @ [Delay d] else calls1"
      have "count_list (snd (enableLoop h m d (a + 1) (Some e) ?next)) c = count_list ?next c"
        using "1.IH"[OF True once[symmetric] Inl "1.prems"] .
      moreover have "count_list ?next c = count_list calls1 c"
        using "1.prems" by simp
      ultimately show ?thesis
        using True once Inl c1 by (subst enableLoop.simps) simp
    qed
  qed
qed

lemma captureOnce_captures:
  "count_list (snd (captureOnce h d calls)) GetDisplayMedia \<le> Suc (count_list calls GetDisplayMedia)"
proof -
  obtain r calls1 where en: "enableLoopbackAudioWithRetry h 2 d calls = (r, calls1)"
    by (cases "enableLoopbackAudioWithRetry h 2 d calls")
  have "count_list calls1 GetDisplayMedia = count_list calls GetDisplayMedia"
    using enableLoop_adds[of GetDisplayMedia d h 2 1 None calls] en
    by (simp add: enableLoopbackAudioWithRetry_def)
  with en show ?thesis
    by (simp add: captureOnce_def split: sum.splits option.splits)
qed

lemma captureOnce_never_disables:
  "count_list (snd (captureOnce h d calls)) DisableSafe = count_list calls DisableSafe"
proof -
  obtain r calls1 where en: "enableLoopbackAudioWithRetry h 2 d calls = (r, calls1)"
    by (cases "enableLoopbackAudioWithRetry h 2 d calls")
  have "count_list calls1 DisableSafe = count_list calls DisableSafe"
    using enableLoop_adds[of DisableSafe d h 2 1 None calls] en
    by (simp add: enableLoopbackAudioWithRetry_def)
  with en show ?thesis
    by (simp add: captureOnce_def split: sum.splits option.splits)
qed

lemma captureLoop_captures:
  "count_list (snd (captureLoop h m d a l calls)) GetDisplayMedia
     \<le> count_list calls GetDisplayMedia + (Suc m - a)"
proof (induction h m d a l calls rule: captureLoop.induct)
  case (1 h m d a l calls)
  show ?case
  proof (cases "a \<le> m")
    case False
    then show ?thesis by (subst captureLoop.simps) simp
  next
    case True
    obtain r calls1 where once: "captureOnce h d calls = (r, calls1)"
      by (cases "captureOnce h d calls")
    have c1: "count_list calls1 GetDisplayMedia \<le> Suc (count_list calls GetDisplayMedia)"
      using captureOnce_captures[of h d calls] once by simp
    show ?thesis
    proof (cases r)
      case (Inr stream)
      with True once c1 show ?thesis by (subst captureLoop.simps) simp
    next
      case (Inl e)
      let ?next = "if a < m then calls1 @ [Delay (retryWait d a e)] else calls1"
      have "count_list (snd (captureLoop h m d (a + 1) (Some e) ?next)) GetDisplayMedia
            \<le> count_list ?next GetDisplayMedia + (Suc m - (a + 1))"
        using "1.IH"[OF True once[symmetric] Inl] .
      moreover have "count_list ?next GetDisplayMedia = count_list calls1 GetDisplayMedia"
        by simp
      ultimately show ?thesis
        using True once Inl c1 by (subst captureLoop.simps) simp
    qed
  qed
qed

lemma captureLoop_never_disables:
  "count_list (snd (captureLoop h m d a l calls)) DisableSafe = count_list calls DisableSafe"
proof (induction h m d a l calls rule: captureLoop.induct)
  case (1 h m d a l calls)
  show ?case
  proof (cases "a \<le> m")
    case False
    then show ?thesis by (subst captureLoop.simps) simp
  next
    case True
    obtain r calls1 where once: "captureOnce h d calls = (r, calls1)"
      by (cases "captureOnce h d calls")
    have c1: "count_list calls1 DisableSafe = count_list calls DisableSafe"
      using captureOnce_never_disables[of h d calls] once by simp
    show ?thesis
    proof (cases r)
      case (Inr stream)
      with True once c1 show ?thesis by (subst captureLoop.simps) simp
    next
      case (Inl e)
      let ?next = "if a < m then calls1 @ [Delay (retryWait d a e)] else calls1"
      have "count_list (snd (captureLoop h m d (a + 1) (Some e) ?next)) DisableSafe
            = count_list ?next DisableSafe"
        using "1.IH"[OF True once[symmetric] Inl] .
      moreover have "count_list ?next DisableSafe = count_list calls1 DisableSafe"
        by simp
      ultimately show ?thesis
        using True once Inl c1 by (subst captureLoop.simps) simp
    qed
  qed
qed

text \<open>
  On every host, a run of the published \<open>captureWindowsSystemAudio\<close> that returns a stream
  has not entered \<open>disableLoopbackAudioSafe\<close>, and a run that throws on a Windows host has
  entered it once.
\<close>

lemma published_helper_disables_only_on_failure:
  "count_list (snd (captureWindowsSystemAudio h calls)) DisableSafe
     = count_list calls DisableSafe
       + (if isWindows h \<and> (\<exists>e. fst (captureWindowsSystemAudio h calls) = Inl e) then 1 else 0)"
proof (cases "isWindows h")
  case False
  then show ?thesis by (simp add: captureWindowsSystemAudio_def)
next
  case True
  obtain r calls1 where run: "captureSystemAudioWindows h 3 500 calls = (r, calls1)"
    by (cases "captureSystemAudioWindows h 3 500 calls")
  have "count_list calls1 DisableSafe = count_list calls DisableSafe"
    using captureLoop_never_disables[of h 3 500 1 None calls] run
    by (simp add: captureSystemAudioWindows_def split: option.splits)
  with True run show ?thesis
    by (cases r) (simp_all add: captureWindowsSystemAudio_def disableLoopbackAudioSafe_def split: option.splits)
qed

subsection \<open>Tracks of the returned stream\<close>

lemma stopAndRemove_eq: "stopAndRemove t stream = filter (\<lambda>u. tid u \<noteq> tid t) stream"
  by (induction stream) (simp_all add: stopAndRemove_def track_stop_def removeTrack_def)

lemma fold_stopAndRemove:
  "fold stopAndRemove ts stream = filter (\<lambda>u. tid u \<notin> tid ` set ts) stream"
proof (induction ts arbitrary: stream)
  case Nil
  then show ?case by simp
next
  case (Cons t ts)
  have "fold stopAndRemove (t # ts) stream = fold stopAndRemove ts (stopAndRemove t stream)"
    by simp
  also have "\<dots> = filter (\<lambda>u. tid u \<notin> tid ` set ts) (stopAndRemove t stream)"
    by (rule Cons.IH)
  also have "\<dots> = filter (\<lambda>u. tid u \<notin> tid ` set ts) (filter (\<lambda>u. tid u \<noteq> tid t) stream)"
    by (simp only: stopAndRemove_eq)
  also have "\<dots> = filter (\<lambda>u. tid u \<notin> tid ` set (t # ts)) stream"
    by (induction stream) auto
  finally show ?case .
qed

text \<open>The Windows path hands out no video track.\<close>

lemma dropVideoTracks_no_video: "getVideoTracks (dropVideoTracks stream) = []"
  by (auto simp: dropVideoTracks_def fold_stopAndRemove getVideoTracks_def filter_empty_conv)

lemma windows_capture_has_no_video:
  "fst (captureWindowsSystemAudio h calls) = Inr stream \<Longrightarrow> getVideoTracks stream = []"
  by (auto simp: captureWindowsSystemAudio_def dropVideoTracks_no_video
      split: if_splits prod.splits sum.splits)

text \<open>
  The macOS and Linux path ends every video track and removes none: \<open>t.stop()\<close> yields
  \<open>undefined\<close>, so the right operand of \<open>&&\<close> is never evaluated.
\<close>

lemma stopAndThenRemove_eq:
  "stopAndThenRemove t stream = map (\<lambda>u. if tid u = tid t then u\<lparr>ended := True\<rparr> else u) stream"
  by (simp add: stopAndThenRemove_def track_stop_def truthy_def)

lemma stopAndThenRemove_video:
  "length (getVideoTracks (stopAndThenRemove t stream)) = length (getVideoTracks stream)"
  by (induction stream) (simp_all add: stopAndThenRemove_eq getVideoTracks_def)

lemma original_capture_keeps_video:
  "length (getVideoTracks (fold stopAndThenRemove ts stream)) = length (getVideoTracks stream)"
  by (induction ts arbitrary: stream) (simp_all add: stopAndThenRemove_video)

subsection \<open>Pairing of enable and disable\<close>

text \<open>
  C1. On a Windows host where the first capture succeeds, the published
  \<open>captureWindowsSystemAudio\<close> enables the intercept, captures, and returns the stream
  without ever entering \<open>disableLoopbackAudioSafe\<close>: the intercept is left enabled. When
  every capture is rejected, the helper disables once and the renderer's wrapper around it
  disables a second time.
\<close>

theorem successful_capture_leaves_intercept_enabled:
  "captureWindowsSystemAudio windowsHost []
     = (Inr [audioTrack], [EnableLoopback, Delay 500, GetDisplayMedia])
   \<and> captureSystemAudio windowsHost []
     = (Inr [audioTrack], [EnableLoopback, Delay 500, GetDisplayMedia])
   \<and> count_list (snd (captureWindowsSystemAudio windowsHost [])) DisableSafe = 0
   \<and> count_list (snd (captureWindowsSystemAudio (rejectingHost abortError) [])) DisableSafe = 1
   \<and> count_list (snd (captureSystemAudio (rejectingHost abortError) [])) DisableSafe = 2"
  by (simp add: run_capture example_hosts dropVideoTracks_def getVideoTracks_def stopAndRemove_def
        track_stop_def removeTrack_def)

subsection \<open>Video tracks of the returned stream\<close>

text \<open>
  C2. On a macOS host, \<open>captureSystemAudio\<close> returns the captured stream with its video
  track still in it, ended but not removed.
\<close>

theorem original_capture_returns_video_track:
  "captureSystemAudio macHost []
     = (Inr [audioTrack, videoTrack\<lparr>ended := True\<rparr>], [EnableLoopback, GetDisplayMedia, DisableLoopback])
   \<and> getVideoTracks [audioTrack, videoTrack\<lparr>ended := True\<rparr>] = [videoTrack\<lparr>ended := True\<rparr>]"
  by (simp add: captureSystemAudio_def detectPlatform_def captureSystemAudioMacOS_def
        toLowerCase_def lowerChar_def example_hosts getVideoTracks_def stopAndThenRemove_def
        track_stop_def truthy_def)

subsection \<open>A host without the enable function\<close>

lemma enable_missing:
  assumes "enableLoopbackAudio h = None"
  shows "enableLoopbackAudioWithRetry h 2 d calls = (Inl enableUnavailable, calls @ [Delay d])"
proof -
  let ?unavailable = "mkError ''Loopback audio API not available''"
  have once: "\<And>cs. enableOnce h d cs = (Inl ?unavailable, cs)"
    using assms by (simp add: enableOnce_def validateLoopbackAudio_def)
  have third: "enableLoop h 2 d (Suc (Suc (Suc 0))) (Some ?unavailable) (calls @ [Delay d])
                 = (Inl enableUnavailable, calls @ [Delay d])"
    by (subst enableLoop.simps)
       (simp add: enableUnavailable_def showNat_2 messageOr_def mkError_def)
  have second: "enableLoop h 2 d (Suc (Suc 0)) (Some ?unavailable) (calls @ [Delay d])
                 = (Inl enableUnavailable, calls @ [Delay d])"
    by (subst enableLoop.simps) (simp add: once third)
  have first: "enableLoop h 2 d 1 None calls = (Inl enableUnavailable, calls @ [Delay d])"
    by (subst enableLoop.simps) (simp add: once second)
  then show ?thesis
    by (simp only: enableLoopbackAudioWithRetry_def)
qed

lemma captureOnce_enable_missing:
  assumes "enableLoopbackAudio h = None"
  shows "captureOnce h d calls = (Inl enableUnavailable, calls @ [Delay d])"
  by (simp add: captureOnce_def enable_missing[OF assms])

lemma captureLoop_enable_missing:
  assumes "enableLoopbackAudio h = None"
  shows "captureLoop h m d a l calls =
           (Inl (mkError (exhaustedMessage m (if a \<le> m then Some enableUnavailable else l))),
            calls @ replicate (if a \<le> m then 2 * (m - a) + 1 else 0) (Delay d))"
  using assms
proof (induction h m d a l calls rule: captureLoop.induct)
  case (1 h m d a l calls)
  note once = captureOnce_enable_missing[OF "1.prems"]
  show ?case
  proof (cases "a \<le> m")
    case False
    then show ?thesis by (subst captureLoop.simps) simp
  next
    case True
    let ?next = "if a < m then (calls @ [Delay d]) @ [Delay (retryWait d a enableUnavailable)]
                 else calls @ [Delay d]"
    have ih: "captureLoop h m d (a + 1) (Some enableUnavailable) ?next =
           (Inl (mkError (exhaustedMessage m (Some enableUnavailable))),
            ?next @ replicate (if a + 1 \<le> m then 2 * (m - (a + 1)) + 1 else 0) (Delay d))"
      using "1.IH"[OF True once[of d calls, symmetric] refl "1.prems"] by simp
    have wait: "retryWait d a enableUnavailable = d"
      by (simp add: retryWait_def enableUnavailable_generic)
    have unfold: "captureLoop h m d a l calls
                    = captureLoop h m d (a + 1) (Some enableUnavailable) ?next"
      using True by (subst captureLoop.simps) (simp add: once)
    show ?thesis
    proof (cases "a < m")
      case True
      then have "2 * (m - a) + 1 = Suc (Suc (2 * (m - (a + 1)) + 1))" by arith
      then have "replicate (2 * (m - a) + 1) (Delay d)
                   = Delay d # Delay d # replicate (2 * (m - (a + 1)) + 1) (Delay d)"
        by simp
      with True unfold ih wait show ?thesis by simp
    next
      case False
      with \<open>a \<le> m\<close> have "a = m" by simp
      with unfold ih show ?thesis by simp
    qed
  qed
qed

lemma captureSystemAudioWindows_enable_missing:
  assumes "enableLoopbackAudio h = None" and "getDisplayMedia h = Some capture"
  shows "captureSystemAudioWindows h m d calls =
           (Inl (mkError (''Failed to capture system audio after '' @ showNat m @ '' attempts: ''
                   @ (if m = 0 then ''Unknown error''
                      else ''Failed to enable loopback audio after 2 attempts: Loopback audio API not available''))),
            calls @ replicate (2 * m - 1) (Delay d))"
proof (cases "m = 0")
  case True
  then show ?thesis using assms
    by (simp add: captureSystemAudioWindows_def captureLoop_enable_missing[OF assms(1)]
          exhaustedMessage_def messageOr_def)
next
  case False
  then have "2 * (m - 1) + 1 = 2 * m - 1" by arith
  with False show ?thesis using assms
    by (simp add: captureSystemAudioWindows_def captureLoop_enable_missing[OF assms(1)]
          exhaustedMessage_def messageOr_def enableUnavailable_def mkError_def)
qed

text \<open>
  C3, as the code has it. When \<open>enableLoopbackAudio\<close> is undefined and \<open>getDisplayMedia\<close>
  exists, the capture makes no \<open>getDisplayMedia\<close> call, but it does not fail at once:
  each of the \<open>maxRetries\<close> attempts runs the enable step with its budget of two, which
  waits \<open>retryDelay\<close> once, and the attempts are \<open>retryDelay\<close> apart, \<open>2 * maxRetries - 1\<close>
  waits in all (five waits of 500 ms from \<open>captureWindowsSystemAudio\<close>). It then throws
  a plain \<open>Error\<close> whose message wraps the enable step's message; no error class for an
  unavailable API exists.
\<close>

theorem missing_enable_fails_after_all_retries:
  assumes "enableLoopbackAudio h = None" and "getDisplayMedia h = Some capture"
  shows "captureSystemAudioWindows h maxRetries retryDelay calls =
           (Inl (mkError (''Failed to capture system audio after '' @ showNat maxRetries @ '' attempts: ''
                   @ (if maxRetries = 0 then ''Unknown error''
                      else ''Failed to enable loopback audio after 2 attempts: Loopback audio API not available''))),
            calls @ replicate (2 * maxRetries - 1) (Delay retryDelay))
         \<and> count_list (snd (captureSystemAudioWindows h maxRetries retryDelay calls)) GetDisplayMedia
             = count_list calls GetDisplayMedia
         \<and> (isWindows h \<longrightarrow>
              captureWindowsSystemAudio h calls =
                (Inl (mkError ''Failed to capture system audio after 3 attempts: Failed to enable loopback audio after 2 attempts: Loopback audio API not available''),
                 disableLoopbackAudioSafe h (calls @ replicate 5 (Delay 500))))"
proof -
  note run = captureSystemAudioWindows_enable_missing[OF assms]
  have "2 * (3::nat) - 1 = 5" by simp
  then have five: "replicate (2 * 3 - 1) (Delay 500) = replicate 5 (Delay 500)"
    by (simp only:)
  show ?thesis
    by (simp add: run captureWindowsSystemAudio_def showNat_3 five)
qed

theorem missing_enable_fails_after_all_retries_witness:
  "enableLoopbackAudio hostWithoutEnable = None
   \<and> captureWindowsSystemAudio hostWithoutEnable [] =
       (Inl (mkError ''Failed to capture system audio after 3 attempts: Failed to enable loopback audio after 2 attempts: Loopback audio API not available''),
        [Delay 500, Delay 500, Delay 500, Delay 500, Delay 500, DisableSafe, DisableLoopback])"
  using missing_enable_fails_after_all_retries
          [of hostWithoutEnable "\<lambda>k. Inr [audioTrack, videoTrack]" 3 500 "[]"]
  by (simp add: hostWithoutEnable_def windowsHost_def isWindows_def toLowerCase_def lowerChar_def
        disableLoopbackAudioSafe_def numeral_eq_Suc)

theorem missing_enable_counterexample:
  "enableLoopbackAudio hostWithoutEnable = None
   \<and> count_list (snd (captureWindowsSystemAudio hostWithoutEnable [])) (Delay 500) = 5
   \<and> fst (captureWindowsSystemAudio hostWithoutEnable []) =
       Inl \<lparr>ename = ''Error'',
            emessage = Some ''Failed to capture system audio after 3 attempts: Failed to enable loopback audio after 2 attempts: Loopback audio API not available''\<rparr>"
  by (simp add: run_capture example_hosts)

subsection \<open>The wait between capture attempts\<close>

text \<open>The unfoldings that evaluate a run of the revision in unnamed/part_001.\<close>

lemmas run_capture_rev =
  captureSystemAudioWindows_rev_def captureLoop_rev.simps captureOnce_rev_def
  enableLoopbackAudioWithRetry_rev_def enableLoop_rev.simps enableOnce_rev_def
  validateLoopbackAudio_rev_def resolvedError_def retryWait_rev_def isNotSupported_def
  exhaustedMessage_rev_def messageOr_def mkError_def showNat.simps digitChar_def Let_def

text \<open>
  C4, as the code has it. After a failed capture attempt that is not the last, the loop
  waits before the next attempt: for an error that is not of the not-supported kind the
  constant \<open>retryDelay\<close>, whatever the attempt number; for a not-supported error
  \<open>retryDelay * 2\<close> in the published helper and \<open>attempt * 1000\<close> in the revision of
  unnamed/part_001. After the last attempt there is no wait.
\<close>

theorem capture_retry_wait:
  "(attempt \<le> maxRetries \<and> captureOnce h retryDelay calls = (Inl e, calls1) \<longrightarrow>
      captureLoop h maxRetries retryDelay attempt lastError calls =
        captureLoop h maxRetries retryDelay (attempt + 1) (Some e)
          (calls1 @ (if attempt < maxRetries
                     then [Delay (if isNotSupported e then retryDelay * 2 else retryDelay)]
                     else [])))
   \<and> (attempt \<le> maxRetries \<and> captureOnce_rev h attempt calls = (Inl e, calls1) \<longrightarrow>
      captureLoop_rev h maxRetries retryDelay attempt lastError calls =
        captureLoop_rev h maxRetries retryDelay (attempt + 1) (Some e)
          (calls1 @ (if attempt < maxRetries
                     then [Delay (if isNotSupported e then attempt * 1000 else retryDelay)]
                     else [])))"
proof (intro conjI impI)
  assume "attempt \<le> maxRetries \<and> captureOnce h retryDelay calls = (Inl e, calls1)"
  then show "captureLoop h maxRetries retryDelay attempt lastError calls =
        captureLoop h maxRetries retryDelay (attempt + 1) (Some e)
          (calls1 @ (if attempt < maxRetries
                     then [Delay (if isNotSupported e then retryDelay * 2 else retryDelay)]
                     else []))"
    by (subst captureLoop.simps) (simp add: retryWait_def)
next
  assume "attempt \<le> maxRetries \<and> captureOnce_rev h attempt calls = (Inl e, calls1)"
  then show "captureLoop_rev h maxRetries retryDelay attempt lastError calls =
        captureLoop_rev h maxRetries retryDelay (attempt + 1) (Some e)
          (calls1 @ (if attempt < maxRetries
                     then [Delay (if isNotSupported e then attempt * 1000 else retryDelay)]
                     else []))"
    by (subst captureLoop_rev.simps) (simp add: retryWait_rev_def)
qed

lemma second_attempt_rejected:
  "captureOnce (rejectingHost abortError) 500 [] = (Inl abortError, [EnableLoopback, Delay 500, GetDisplayMedia])"
  by (simp add: captureOnce_def enableLoopbackAudioWithRetry_def enableLoop.simps enableOnce_def
        validateLoopbackAudio_def example_hosts)

theorem capture_retry_wait_witness:
  "\<not> isNotSupported abortError
   \<and> captureLoop (rejectingHost abortError) 3 500 2 None [] =
       captureLoop (rejectingHost abortError) 3 500 3 (Some abortError)
         [EnableLoopback, Delay 500, GetDisplayMedia, Delay 500]"
proof -
  have generic: "\<not> isNotSupported abortError"
    by (simp add: isNotSupported_def abortError_def)
  have "captureLoop (rejectingHost abortError) 3 500 2 None [] =
        captureLoop (rejectingHost abortError) 3 500 (2 + 1) (Some abortError)
          ([EnableLoopback, Delay 500, GetDisplayMedia] @ (if (2::nat) < 3
                     then [Delay (if isNotSupported abortError then 500 * 2 else 500)]
                     else []))"
    using capture_retry_wait
            [of 2 3 "rejectingHost abortError" 500 "[]" abortError
                "[EnableLoopback, Delay 500, GetDisplayMedia]" None]
          second_attempt_rejected order_less_imp_le[of "2::nat" 3]
    by simp
  with generic show ?thesis by simp
qed

theorem capture_retry_wait_counterexample:
  "\<not> isNotSupported abortError
   \<and> snd (captureSystemAudioWindows (rejectingHost abortError) 3 500 []) =
       [EnableLoopback, Delay 500, GetDisplayMedia, Delay 500,
        EnableLoopback, Delay 500, GetDisplayMedia, Delay 500,
        EnableLoopback, Delay 500, GetDisplayMedia]
   \<and> Delay (2 * 500) \<notin> set (snd (captureSystemAudioWindows (rejectingHost abortError) 3 500 []))
   \<and> snd (captureSystemAudioWindows_rev (rejectingHost abortError) 3 500 []) =
       [EnableLoopback, DisableLoopback, EnableLoopback, Delay 1000, Delay 1500, GetDisplayMedia, Delay 500,
        EnableLoopback, DisableLoopback, EnableLoopback, Delay 1000, Delay 800, GetDisplayMedia, Delay 500,
        EnableLoopback, DisableLoopback, EnableLoopback, Delay 1000, Delay 800, GetDisplayMedia]
   \<and> isNotSupported notSupportedByName
   \<and> snd (captureSystemAudioWindows (rejectingHost notSupportedByName) 3 500 []) =
       [EnableLoopback, Delay 500, GetDisplayMedia, Delay 1000,
        EnableLoopback, Delay 500, GetDisplayMedia, Delay 1000,
        EnableLoopback, Delay 500, GetDisplayMedia]"
proof -
  have a: "\<not> isNotSupported abortError"
    by (simp add: isNotSupported_def abortError_def)
  have b: "snd (captureSystemAudioWindows (rejectingHost abortError) 3 500 []) =
       [EnableLoopback, Delay 500, GetDisplayMedia, Delay 500,
        EnableLoopback, Delay 500, GetDisplayMedia, Delay 500,
        EnableLoopback, Delay 500, GetDisplayMedia]"
    by (simp add: run_capture example_hosts)
  have c: "snd (captureSystemAudioWindows_rev (rejectingHost abortError) 3 500 []) =
       [EnableLoopback, DisableLoopback, EnableLoopback, Delay 1000, Delay 1500, GetDisplayMedia, Delay 500,
        EnableLoopback, DisableLoopback, EnableLoopback, Delay 1000, Delay 800, GetDisplayMedia, Delay 500,
        EnableLoopback, DisableLoopback, EnableLoopback, Delay 1000, Delay 800, GetDisplayMedia]"
    by (simp add: run_capture_rev example_hosts)
  have d: "isNotSupported notSupportedByName"
    by (simp add: isNotSupported_def notSupportedByName_def)
  have e: "snd (captureSystemAudioWindows (rejectingHost notSupportedByName) 3 500 []) =
       [EnableLoopback, Delay 500, GetDisplayMedia, Delay 1000,
        EnableLoopback, Delay 500, GetDisplayMedia, Delay 1000,
        EnableLoopback, Delay 500, GetDisplayMedia]"
    by (simp add: run_capture example_hosts)
  have f: "Delay (2 * 500) \<notin> set (snd (captureSystemAudioWindows (rejectingHost abortError) 3 500 []))"
    by (simp only: b) simp
  from a b c d e f show ?thesis by (intro conjI)
qed

subsection \<open>The attempt budget and the error after the last attempt\<close>

text \<open>
  C5, as the code has it. A run makes at most \<open>maxRetries\<close> calls of \<open>getDisplayMedia\<close>.
  When the last attempt fails, the run throws one \<open>Error\<close> whose message is chosen by the
  \<open>name\<close> of the last error alone: \<open>NotSupportedError\<close> gives the advice text, and every
  other name gives \<open>Failed to capture system audio after N attempts:\<close> followed by the
  last message (or \<open>Unknown error\<close>). That includes an error the loop itself treated as
  not supported because its message contains \<open>Not supported\<close>.
\<close>

theorem capture_budget_and_final_error:
  "count_list (snd (captureSystemAudioWindows h maxRetries retryDelay calls)) GetDisplayMedia
     \<le> count_list calls GetDisplayMedia + maxRetries
   \<and> (attempt = maxRetries \<and> captureOnce h retryDelay calls = (Inl e, calls1) \<longrightarrow>
        captureLoop h maxRetries retryDelay attempt lastError calls =
          (Inl (mkError (if ename e = ''NotSupportedError'' then notSupportedAdvice
                         else ''Failed to capture system audio after '' @ showNat maxRetries
                                @ '' attempts: '' @ messageOr (Some e))),
           calls1))"
proof (intro conjI impI)
  show "count_list (snd (captureSystemAudioWindows h maxRetries retryDelay calls)) GetDisplayMedia
     \<le> count_list calls GetDisplayMedia + maxRetries"
    using captureLoop_captures[of h maxRetries retryDelay 1 None calls]
    by (simp add: captureSystemAudioWindows_def split: option.splits)
next
  assume last: "attempt = maxRetries \<and> captureOnce h retryDelay calls = (Inl e, calls1)"
  have after: "captureLoop h maxRetries retryDelay (maxRetries + 1) (Some e) calls1
                 = (Inl (mkError (exhaustedMessage maxRetries (Some e))), calls1)"
    by (subst captureLoop.simps) simp
  have "captureLoop h maxRetries retryDelay maxRetries lastError calls
          = captureLoop h maxRetries retryDelay (maxRetries + 1) (Some e) calls1"
    using last by (subst captureLoop.simps) simp
  with after last show "captureLoop h maxRetries retryDelay attempt lastError calls =
          (Inl (mkError (if ename e = ''NotSupportedError'' then notSupportedAdvice
                         else ''Failed to capture system audio after '' @ showNat maxRetries
                                @ '' attempts: '' @ messageOr (Some e))),
           calls1)"
    by (simp add: exhaustedMessage_def)
qed

lemma last_attempt_rejected:
  "captureOnce (rejectingHost notSupportedByName) 500 []
     = (Inl notSupportedByName, [EnableLoopback, Delay 500, GetDisplayMedia])"
  by (simp add: captureOnce_def enableLoopbackAudioWithRetry_def enableLoop.simps enableOnce_def
        validateLoopbackAudio_def example_hosts)

theorem capture_budget_and_final_error_witness:
  "captureLoop (rejectingHost notSupportedByName) 3 500 3 None []
     = (Inl (mkError notSupportedAdvice), [EnableLoopback, Delay 500, GetDisplayMedia])
   \<and> count_list (snd (captureSystemAudioWindows (rejectingHost notSupportedByName) 3 500 [])) GetDisplayMedia
       \<le> 3"
proof -
  have "captureLoop (rejectingHost notSupportedByName) 3 500 3 None [] =
          (Inl (mkError (if ename notSupportedByName = ''NotSupportedError'' then notSupportedAdvice
                         else ''Failed to capture system audio after '' @ showNat 3
                                @ '' attempts: '' @ messageOr (Some notSupportedByName))),
           [EnableLoopback, Delay 500, GetDisplayMedia])"
    using capture_budget_and_final_error
            [of "rejectingHost notSupportedByName" 3 500 "[]" 3 notSupportedByName
                "[EnableLoopback, Delay 500, GetDisplayMedia]" None]
          last_attempt_rejected
    by blast
  moreover have "count_list (snd (captureSystemAudioWindows (rejectingHost notSupportedByName) 3 500 [])) GetDisplayMedia
       \<le> count_list [] GetDisplayMedia + 3"
    using capture_budget_and_final_error
            [of "rejectingHost notSupportedByName" 3 500 "[]" 3 notSupportedByName
                "[EnableLoopback, Delay 500, GetDisplayMedia]" None]
    by blast
  ultimately show ?thesis by (simp add: notSupportedByName_def)
qed

theorem capture_final_error_counterexample:
  "isNotSupported notSupportedByMessage
   \<and> captureSystemAudioWindows (rejectingHost notSupportedByMessage) 3 500 [] =
       (Inl (mkError ''Failed to capture system audio after 3 attempts: Not supported''),
        [EnableLoopback, Delay 500, GetDisplayMedia, Delay 1000,
         EnableLoopback, Delay 500, GetDisplayMedia, Delay 1000,
         EnableLoopback, Delay 500, GetDisplayMedia])
   \<and> fst (captureSystemAudioWindows (rejectingHost notSupportedByName) 3 500 [])
       = Inl (mkError notSupportedAdvice)
   \<and> mkError ''Failed to capture system audio after 3 attempts: Not supported'' \<noteq> mkError notSupportedAdvice"
proof -
  have a: "isNotSupported notSupportedByMessage"
    by (simp add: isNotSupported_def notSupportedByMessage_def)
  have b: "captureSystemAudioWindows (rejectingHost notSupportedByMessage) 3 500 [] =
       (Inl (mkError ''Failed to capture system audio after 3 attempts: Not supported''),
        [EnableLoopback, Delay 500, GetDisplayMedia, Delay 1000,
         EnableLoopback, Delay 500, GetDisplayMedia, Delay 1000,
         EnableLoopback, Delay 500, GetDisplayMedia])"
    by (simp add: run_capture example_hosts)
  have c: "fst (captureSystemAudioWindows (rejectingHost notSupportedByName) 3 500 [])
       = Inl (mkError notSupportedAdvice)"
    by (simp add: run_capture example_hosts)
  have d: "mkError ''Failed to capture system audio after 3 attempts: Not supported'' \<noteq> mkError notSupportedAdvice"
    by (simp add: mkError_def notSupportedAdvice_def)
  from a b c d show ?thesis by (intro conjI)
qed

end
